theory Spec2Isabelle
  imports Main "HOL-Library.Sublist"
begin

section \<open>The MessageBird REST client: \<open>client.go\<close>\<close>

text \<open>
  \<open>client.go\<close> holds one operation, \<open>Client.Request\<close>: it resolves the path against the
  API endpoint, encodes the payload, builds the HTTP request with its four headers, hands
  it to the HTTP client, reads the response body and classifies the response by its status
  code. Everything else it calls belongs to Go's standard library (\<open>net/url\<close>,
  \<open>encoding/json\<close>, \<open>net/http\<close>, \<open>io/ioutil\<close>, \<open>runtime\<close>, \<open>log\<close>).

  The embedding keeps the library outside: a record \<open>stdlib\<close> holds the library functions
  \<open>Request\<close> calls, and every definition of \<open>client.go\<close> takes it as its first argument.
  Strings and byte slices are \<open>string\<close> (lists of bytes); a Go \<open>error\<close> result is a sum
  with the error on the left; the caller's result target \<open>v\<close> and the debug logger, which
  Go mutates through pointers, are passed in and returned.
\<close>

subsection \<open>Constants\<close>

definition ClientVersion :: string where
  "ClientVersion = ''4.2.1''"

definition Endpoint :: string where
  "Endpoint = ''https://rest.messagebird.com''"

subsection \<open>Data\<close>

text \<open>
  Modelled from the spec: the type \<open>ErrorResponse\<close> that \<open>Request\<close> decodes error bodies
  into is declared in another file of the package, which is not among the sources. The
  spec describes it as an ordered sequence of error items, each with a machine code, a
  human description, an optional parameter name and an optional documentation reference.
\<close>

record Error =
  Code :: int
  Description :: string
  Parameter :: "string option"
  Documentation :: "string option"

record ErrorResponse =
  Errors :: "Error list"

text \<open>
  The errors \<open>Request\<close> returns: the sentinel \<open>ErrUnexpectedResponse\<close> (line 39), an error
  of a library call handed on unchanged (\<open>return err\<close>), the value of \<open>fmt.Errorf\<close> with
  its message (line 121), and a decoded \<open>ErrorResponse\<close> (line 132).
\<close>

datatype 'e error =
    ErrUnexpectedResponse
  | Library 'e
  | Errorf string
  | APIError ErrorResponse

text \<open>
  \<open>http.Request\<close> as far as \<open>Request\<close> fills it: the method, the URL (as the string
  \<open>http.NewRequest\<close> was given), the header map and the body bytes. \<open>http.Response\<close> as
  far as \<open>Request\<close> reads it: the status code, and the body stream, which \<open>ioutil.ReadAll\<close>
  reads to its bytes or fails on.
\<close>

type_synonym header = "string \<rightharpoonup> string list"

record request =
  Method :: string
  URL :: string
  Header :: header
  RequestBody :: string

record 'e response =
  StatusCode :: int
  Body :: "'e + string"

text \<open>
  The library. \<open>'e\<close> is the type of the error values library calls return, \<open>'u\<close> is
  \<open>*url.URL\<close>, \<open>'d\<close> the type of the payload and \<open>'v\<close> the type the result target points to.
  \<open>json.Unmarshal\<close> writes through the pointer it is given, so it takes the target's value
  and returns the error together with the value it leaves there. \<open>NewRequest_check\<close> is
  the validation \<open>http.NewRequest\<close> performs on the method and the URL string.
\<close>

record ('e, 'u, 'd, 'v) stdlib =
  url_Parse :: "string \<Rightarrow> 'e + 'u"
  url_String :: "'u \<Rightarrow> string"
  json_Marshal :: "'d \<Rightarrow> 'e + string"
  NewRequest_check :: "string \<Rightarrow> string \<Rightarrow> 'e option"
  runtime_Version :: string
  json_Unmarshal :: "string \<Rightarrow> 'v \<Rightarrow> 'e option \<times> 'v"
  json_Unmarshal_ErrorResponse :: "string \<Rightarrow> ErrorResponse \<Rightarrow> 'e option \<times> ErrorResponse"
  Error_text :: "'e \<Rightarrow> string"

text \<open>
  \<open>Client\<close> (lines 44 to 48). \<open>HTTPClient\<close> is a pointer: \<open>None\<close> is \<open>nil\<close>, otherwise it is
  what \<open>Do\<close> answers to a request. \<open>DebugLog\<close> is a pointer to a logger: \<open>None\<close> is \<open>nil\<close>,
  otherwise the messages written to it so far.
\<close>

record 'e Client =
  AccessKey :: string
  HTTPClient :: "(request \<Rightarrow> 'e + 'e response) option"
  DebugLog :: "string list option"

text \<open>
  What a call leaves behind: the returned error (\<open>None\<close> is \<open>nil\<close>), the value of the
  result target and the state of the debug logger; or a panic (a \<open>nil\<close> HTTP client is
  dereferenced at line 96), with the logger as it is then.
\<close>

datatype ('e, 'v) result =
    Return "'e error option" 'v "string list option"
  | Panic "string list option"

subsection \<open>Library functions with a fixed meaning\<close>

text \<open>\<open>strings.HasPrefix(s, prefix)\<close>: \<open>len(s) >= len(prefix) && s[:len(prefix)] == prefix\<close>.\<close>

definition HasPrefix :: "string \<Rightarrow> string \<Rightarrow> bool" where
  "HasPrefix s pre = (length pre \<le> length s \<and> take (length pre) s = pre)"

text \<open>\<open>Header.Set\<close> replaces the values of a key by the one value given. The four keys
  \<open>Request\<close> sets are in canonical form already.\<close>

definition Header_Set :: "header \<Rightarrow> string \<Rightarrow> string \<Rightarrow> header" where
  "Header_Set h k x = h(k \<mapsto> [x])"

text \<open>\<open>http.NewRequest\<close>: an empty method means GET; after the validation, a request with
  a fresh, empty header map.\<close>

definition http_NewRequest ::
  "('e, 'u, 'd, 'v) stdlib \<Rightarrow> string \<Rightarrow> string \<Rightarrow> string \<Rightarrow> 'e + request" where
  "http_NewRequest lib method urlStr body =
     (let method' = (if method = [] then ''GET'' else method) in
      case NewRequest_check lib method' urlStr of
        Some e \<Rightarrow> Inl e
      | None \<Rightarrow> Inr \<lparr>Method = method', URL = urlStr, Header = Map.empty, RequestBody = body\<rparr>)"

text \<open>\<open>Logger.Printf\<close> on a logger that is not \<open>nil\<close> appends the formatted message.\<close>

definition Printf :: "string list option \<Rightarrow> string \<Rightarrow> string list option" where
  "Printf l msg = map_option (\<lambda>written. written @ [msg]) l"

subsection \<open>\<open>New\<close> and \<open>Request\<close>\<close>

text \<open>\<open>New\<close> (lines 51 to 58); \<open>client\<close> is what the standard HTTP client with the 15 second
  timeout answers.\<close>

definition New :: "(request \<Rightarrow> 'e + 'e response) \<Rightarrow> string \<Rightarrow> 'e Client" where
  "New client accessKey = \<lparr>AccessKey = accessKey, HTTPClient = Some client, DebugLog = None\<rparr>"

text \<open>Lines 62 to 64: the path, prefixed by the endpoint unless it starts with a scheme.\<close>

definition resolve :: "string \<Rightarrow> string" where
  "resolve path =
     (if \<not> HasPrefix path ''https://'' \<and> \<not> HasPrefix path ''http://''
      then Endpoint @ ''/'' @ path
      else path)"

text \<open>Lines 70 to 76: the payload, encoded unless it is \<open>nil\<close>.\<close>

definition encode :: "('e, 'u, 'd, 'v) stdlib \<Rightarrow> 'd option \<Rightarrow> 'e + string" where
  "encode lib data = (case data of None \<Rightarrow> Inr [] | Some d \<Rightarrow> json_Marshal lib d)"

text \<open>Lines 83 to 86: the four headers.\<close>

definition set_headers :: "('e, 'u, 'd, 'v) stdlib \<Rightarrow> 'e Client \<Rightarrow> request \<Rightarrow> request" where
  "set_headers lib c r =
     r\<lparr>Header :=
         Header_Set
           (Header_Set
              (Header_Set
                 (Header_Set (Header r) ''Content-Type'' ''application/json'')
                 ''Accept'' ''application/json'')
              ''Authorization'' (''AccessKey '' @ AccessKey c))
           ''User-Agent''
           (''MessageBird/ApiClient/'' @ ClientVersion @ '' Go/'' @ runtime_Version lib)\<rparr>"

text \<open>Lines 62 to 86: the request \<open>Request\<close> hands to the HTTP client, or the error it
  returns before sending anything.\<close>

definition build_request ::
  "('e, 'u, 'd, 'v) stdlib \<Rightarrow> 'e Client \<Rightarrow> string \<Rightarrow> string \<Rightarrow> 'd option \<Rightarrow> 'e + request" where
  "build_request lib c method path data =
     (case url_Parse lib (resolve path) of
        Inl e \<Rightarrow> Inl e
      | Inr uri \<Rightarrow>
          (case encode lib data of
             Inl e \<Rightarrow> Inl e
           | Inr jsonEncoded \<Rightarrow>
               (case http_NewRequest lib method (url_String lib uri) jsonEncoded of
                  Inl e \<Rightarrow> Inl e
                | Inr request \<Rightarrow> Inr (set_headers lib c request))))"

text \<open>Lines 88 to 94 and 108 to 110: the two debug messages. \<open>uri.String()\<close> and
  \<open>jsonEncoded\<close> are what the request was built from.\<close>

definition debug_request ::
  "string list option \<Rightarrow> string \<Rightarrow> request \<Rightarrow> 'd option \<Rightarrow> string list option" where
  "debug_request l method r data =
     (if data \<noteq> None
      then Printf l (''HTTP REQUEST: '' @ method @ '' '' @ URL r @ '' '' @ RequestBody r)
      else Printf l (''HTTP REQUEST: '' @ method @ '' '' @ URL r))"

definition debug_response :: "string list option \<Rightarrow> string \<Rightarrow> string list option" where
  "debug_response l responseBody = Printf l (''HTTP RESPONSE: '' @ responseBody)"

text \<open>Lines 112 to 132: the returned error and the value left in the result target, from
  the status code and the body.\<close>

definition classify ::
  "('e, 'u, 'd, 'v) stdlib \<Rightarrow> 'v \<Rightarrow> int \<Rightarrow> string \<Rightarrow> 'e error option \<times> 'v" where
  "classify lib v status responseBody =
     (if status = 500 then (Some ErrUnexpectedResponse, v)
      else if status = 200 \<or> status = 201 then
        (case json_Unmarshal lib responseBody v of
           (Some e, v') \<Rightarrow>
             (Some (Errorf (''could not decode response JSON, '' @ responseBody @ '': ''
                              @ Error_text lib e)), v')
         | (None, v') \<Rightarrow> (None, v'))
      else
        (case json_Unmarshal_ErrorResponse lib responseBody \<lparr>Errors = []\<rparr> of
           (Some e, _) \<Rightarrow> (Some (Library e), v)
         | (None, errorResponse) \<Rightarrow> (Some (APIError errorResponse), v)))"

text \<open>\<open>Request\<close> (lines 61 to 133).\<close>

definition Request ::
  "('e, 'u, 'd, 'v) stdlib \<Rightarrow> 'e Client \<Rightarrow> 'v \<Rightarrow> string \<Rightarrow> string \<Rightarrow> 'd option
     \<Rightarrow> ('e, 'v) result" where
  "Request lib c v method path data =
     (case build_request lib c method path data of
        Inl e \<Rightarrow> Return (Some (Library e)) v (DebugLog c)
      | Inr request \<Rightarrow>
          (let log1 = debug_request (DebugLog c) method request data in
           case HTTPClient c of
             None \<Rightarrow> Panic log1
           | Some client \<Rightarrow>
               (case client request of
                  Inl e \<Rightarrow> Return (Some (Library e)) v log1
                | Inr response \<Rightarrow>
                    (case Body response of
                       Inl e \<Rightarrow> Return (Some (Library e)) v log1
                     | Inr responseBody \<Rightarrow>
                         (let log2 = debug_response log1 responseBody;
                              (err, v') = classify lib v (StatusCode response) responseBody
                          in Return err v' log2)))))"

text \<open>The response \<open>Request\<close> classifies: the status code and the body as read, when the
  request was built, sent and answered and the body was read to its end.\<close>

definition response_of ::
  "('e, 'u, 'd, 'v) stdlib \<Rightarrow> 'e Client \<Rightarrow> string \<Rightarrow> string \<Rightarrow> 'd option
     \<Rightarrow> (int \<times> string) option" where
  "response_of lib c method path data =
     (case build_request lib c method path data of
        Inl e \<Rightarrow> None
      | Inr request \<Rightarrow>
          (case HTTPClient c of
             None \<Rightarrow> None
           | Some client \<Rightarrow>
               (case client request of
                  Inl e \<Rightarrow> None
                | Inr response \<Rightarrow>
                    (case Body response of
                       Inl e \<Rightarrow> None
                     | Inr responseBody \<Rightarrow> Some (StatusCode response, responseBody)))))"

text \<open>The debug logger after a call that read a response with this body.\<close>

definition logged ::
  "('e, 'u, 'd, 'v) stdlib \<Rightarrow> 'e Client \<Rightarrow> string \<Rightarrow> string \<Rightarrow> 'd option \<Rightarrow> string
     \<Rightarrow> string list option" where
  "logged lib c method path data responseBody =
     (case build_request lib c method path data of
        Inl e \<Rightarrow> DebugLog c
      | Inr request \<Rightarrow>
          debug_response (debug_request (DebugLog c) method request data) responseBody)"

text \<open>What the caller sees of a call that returns: the error and the result target.\<close>

fun outcome :: "('e, 'v) result \<Rightarrow> ('e error option \<times> 'v) option" where
  "outcome (Return err v l) = Some (err, v)"
| "outcome (Panic l) = None"

section \<open>Spellings of a scheme\<close>

text \<open>The lower-case form of a byte: the letters \<open>A\<close> to \<open>Z\<close> change, every other byte
  stays.\<close>

definition ascii_lower :: "char \<Rightarrow> char" where
  "ascii_lower c =
     (case map_of (zip ''ABCDEFGHIJKLMNOPQRSTUVWXYZ'' ''abcdefghijklmnopqrstuvwxyz'') c of
        Some l \<Rightarrow> l
      | None \<Rightarrow> c)"

text \<open>A path that starts with \<open>http://\<close> or \<open>https://\<close> in another spelling: the same
  letters, at least one of them in upper case.\<close>

definition scheme_variant :: "string \<Rightarrow> bool" where
  "scheme_variant path =
     ((map ascii_lower (take 7 path) = ''http://'' \<and> take 7 path \<noteq> ''http://'') \<or>
      (map ascii_lower (take 8 path) = ''https://'' \<and> take 8 path \<noteq> ''https://''))"

section \<open>A library for evaluation\<close>

text \<open>
  To evaluate \<open>Request\<close> on concrete inputs the library parameters need values. The
  definitions below are a small stand-in for \<open>net/url\<close> and \<open>encoding/json\<close>: they follow
  the documented behaviour of the two packages on a subset of their inputs (absolute
  \<open>http\<close> and \<open>https\<close> URLs without user, port, query, fragment or percent sign; JSON
  texts of objects, arrays, integers, literals and strings), which covers every input
  evaluated in this theory. The texts of the library's errors are
  shortened. The general theorems do not use these definitions: they hold for every
  library.
\<close>

subsection \<open>Bytes\<close>

definition is_upper :: "char \<Rightarrow> bool" where
  "is_upper c = (c \<in> set ''ABCDEFGHIJKLMNOPQRSTUVWXYZ'')"

definition is_lower :: "char \<Rightarrow> bool" where
  "is_lower c = (c \<in> set ''abcdefghijklmnopqrstuvwxyz'')"

definition is_digit :: "char \<Rightarrow> bool" where
  "is_digit c = (c \<in> set ''0123456789'')"

definition is_ctl :: "char \<Rightarrow> bool" where
  "is_ctl c = ((of_char c :: nat) < 32 \<or> (of_char c :: nat) = 127)"

definition hex_digit :: "nat \<Rightarrow> char" where
  "hex_digit n = ''0123456789ABCDEF'' ! (n mod 16)"

definition hex_lower :: "nat \<Rightarrow> char" where
  "hex_lower n = ''0123456789abcdef'' ! (n mod 16)"

definition hex_value :: "char \<Rightarrow> nat option" where
  "hex_value c =
     map_of (zip ''0123456789abcdefABCDEF''
               [0, 1, 2, 3, 4, 5, 6, 7, 8, 9, 10, 11, 12, 13, 14, 15, 10, 11, 12, 13, 14, 15]) c"

definition digit_value :: "char \<Rightarrow> nat" where
  "digit_value c = of_char c - 48"

fun decimal :: "nat \<Rightarrow> string \<Rightarrow> nat" where
  "decimal acc [] = acc"
| "decimal acc (c # cs) = decimal (10 * acc + digit_value c) cs"

subsection \<open>URLs\<close>

datatype lib_error =
    InvalidControlCharacter
  | SyntaxError
  | UnmarshalTypeError string
  | InvalidMethod
  | ConnectionRefused
  | UnexpectedEOF

fun lib_error_text :: "lib_error \<Rightarrow> string" where
  "lib_error_text InvalidControlCharacter = ''net/url: invalid control character in URL''"
| "lib_error_text SyntaxError = ''invalid character''"
| "lib_error_text (UnmarshalTypeError field) = ''json: cannot unmarshal into field '' @ field"
| "lib_error_text InvalidMethod = ''net/http: invalid method''"
| "lib_error_text ConnectionRefused = ''connection refused''"
| "lib_error_text UnexpectedEOF = ''unexpected EOF''"

record url =
  Scheme :: string
  Host :: string
  Path :: string

text \<open>\<open>shouldEscape\<close> in the mode of a path: letters, digits, the marks \<open>-_.~\<close> and the
  reserved characters other than \<open>?\<close> stay; every other byte is escaped.\<close>

definition shouldEscape :: "char \<Rightarrow> bool" where
  "shouldEscape c =
     (\<not> (is_lower c \<or> is_upper c \<or> is_digit c \<or> c \<in> set ''-_.~$&+,/:;=@''))"

text \<open>\<open>validEncoded\<close> in the mode of a path lets the sub-delimiters, the brackets and the
  percent sign pass as well.\<close>

definition validEncoded :: "string \<Rightarrow> bool" where
  "validEncoded s = (\<forall>c \<in> set s. c \<in> set ''!$&()*+,;=:@[]%'' \<or> c = CHR 0x27 \<or> \<not> shouldEscape c)"

definition escape :: "string \<Rightarrow> string" where
  "escape s =
     concat (map (\<lambda>c. if shouldEscape c
                       then [CHR ''%'', hex_digit (of_char c div 16), hex_digit (of_char c)]
                       else [c]) s)"

text \<open>\<open>EscapedPath\<close> of a path without percent signs: the text as given when it is a valid
  encoding, its escaped form otherwise.\<close>

definition EscapedPath :: "url \<Rightarrow> string" where
  "EscapedPath u = (if validEncoded (Path u) then Path u else escape (Path u))"

definition go_url_Parse :: "string \<Rightarrow> lib_error + url" where
  "go_url_Parse rawURL =
     (if \<exists>c \<in> set rawURL. is_ctl c then Inl InvalidControlCharacter
      else
        (let (scheme, rest) =
               (if HasPrefix rawURL ''https://'' then (''https'', drop 8 rawURL)
                else if HasPrefix rawURL ''http://'' then (''http'', drop 7 rawURL)
                else ([], rawURL))
         in Inr \<lparr>Scheme = scheme,
                 Host = (if scheme = [] then [] else takeWhile (\<lambda>c. c \<noteq> CHR ''/'') rest),
                 Path = (if scheme = [] then rest else dropWhile (\<lambda>c. c \<noteq> CHR ''/'') rest)\<rparr>))"

definition go_url_String :: "url \<Rightarrow> string" where
  "go_url_String u =
     (if Scheme u = [] then EscapedPath u else Scheme u @ ''://'' @ Host u @ EscapedPath u)"

subsection \<open>UTF-8\<close>

text \<open>
  A Go string is a sequence of bytes; \<open>encoding/json\<close> reads it as UTF-8.
  \<open>utf8_width s\<close> is the number of bytes of the encoded rune of two to four bytes that
  \<open>s\<close> starts with, and 0 when \<open>s\<close> starts with no such rune (\<open>utf8.DecodeRune\<close> then
  reports \<open>RuneError\<close> with width 1, unless the first byte is below \<open>0x80\<close>).
\<close>

definition byte_at :: "string \<Rightarrow> nat \<Rightarrow> nat" where
  "byte_at s i = (if i < length s then of_char (s ! i) else 0)"

definition is_cont :: "nat \<Rightarrow> bool" where
  "is_cont b = (128 \<le> b \<and> b \<le> 191)"

definition rune_width :: "nat \<Rightarrow> nat \<Rightarrow> nat \<Rightarrow> nat \<Rightarrow> nat" where
  "rune_width b0 b1 b2 b3 =
     (if 194 \<le> b0 \<and> b0 \<le> 223 then (if is_cont b1 then 2 else 0)
      else if b0 = 224 then (if 160 \<le> b1 \<and> b1 \<le> 191 \<and> is_cont b2 then 3 else 0)
      else if b0 = 237 then (if 128 \<le> b1 \<and> b1 \<le> 159 \<and> is_cont b2 then 3 else 0)
      else if 225 \<le> b0 \<and> b0 \<le> 239 then (if is_cont b1 \<and> is_cont b2 then 3 else 0)
      else if b0 = 240 then
        (if 144 \<le> b1 \<and> b1 \<le> 191 \<and> is_cont b2 \<and> is_cont b3 then 4 else 0)
      else if 241 \<le> b0 \<and> b0 \<le> 243 then
        (if is_cont b1 \<and> is_cont b2 \<and> is_cont b3 then 4 else 0)
      else if b0 = 244 then
        (if 128 \<le> b1 \<and> b1 \<le> 143 \<and> is_cont b2 \<and> is_cont b3 then 4 else 0)
      else 0)"

definition utf8_width :: "string \<Rightarrow> nat" where
  "utf8_width s = rune_width (byte_at s 0) (byte_at s 1) (byte_at s 2) (byte_at s 3)"

text \<open>\<open>utf8.ValidString\<close>: bytes below \<open>0x80\<close> and encoded runes, nothing else.\<close>

function valid_utf8 :: "string \<Rightarrow> bool" where
  "valid_utf8 [] = True"
| "valid_utf8 (b # bs) =
     (if (of_char b :: nat) < 128 then valid_utf8 bs
      else utf8_width (b # bs) \<noteq> 0 \<and> valid_utf8 (drop (utf8_width (b # bs) - 1) bs))"
  by pat_completeness auto
termination
  by (relation "measure length") auto

text \<open>The replacement character \<open>U+FFFD\<close>, and \<open>utf8.EncodeRune\<close>.\<close>

definition replacement :: string where
  "replacement = [CHR 0xEF, CHR 0xBF, CHR 0xBD]"

definition encode_rune :: "nat \<Rightarrow> string" where
  "encode_rune r =
     (if r < 128 then [char_of r]
      else if r < 2048 then [char_of (192 + r div 64), char_of (128 + r mod 64)]
      else if (55296 \<le> r \<and> r < 57344) \<or> 1114111 < r then replacement
      else if r < 65536 then
        [char_of (224 + r div 4096), char_of (128 + r div 64 mod 64), char_of (128 + r mod 64)]
      else
        [char_of (240 + r div 262144), char_of (128 + r div 4096 mod 64),
         char_of (128 + r div 64 mod 64), char_of (128 + r mod 64)])"

subsection \<open>JSON texts\<close>

datatype json =
    JNull
  | JBool bool
  | JNumber int
  | JString string
  | JArray "json list"
  | JObject "(string \<times> json) list"

definition is_space :: "char \<Rightarrow> bool" where
  "is_space c = (c = CHR '' '' \<or> c = CHR 0x09 \<or> c = CHR 0x0A \<or> c = CHR 0x0D)"

definition skip :: "string \<Rightarrow> string" where
  "skip s = dropWhile is_space s"

text \<open>
  A string after its opening quote, up to the closing one. A byte below \<open>0x20\<close> is a
  syntax error, and so is a backslash that starts none of the escapes \<open>\"\<close>, \<open>\\\<close>, \<open>\/\<close>,
  \<open>\b\<close>, \<open>\f\<close>, \<open>\n\<close>, \<open>\r\<close>, \<open>\t\<close> and \<open>\u\<close> with four hex digits. A \<open>\u\<close> escape stands for
  its rune; two of them that form a surrogate pair stand for one rune, and a surrogate
  without its partner for the replacement character. Bytes from \<open>0x80\<close> on are copied when
  they encode a rune and replaced, one at a time, when they do not.
\<close>

definition simple_escape :: "char \<Rightarrow> char option" where
  "simple_escape e =
     map_of [(CHR 0x22, CHR 0x22), (CHR 0x5C, CHR 0x5C), (CHR ''/'', CHR ''/''),
             (CHR ''b'', CHR 0x08), (CHR ''f'', CHR 0x0C), (CHR ''n'', CHR 0x0A),
             (CHR ''r'', CHR 0x0D), (CHR ''t'', CHR 0x09)] e"

definition hex4 :: "string \<Rightarrow> nat option" where
  "hex4 s =
     (case map hex_value (take 4 s) of
        [Some w, Some x, Some y, Some z] \<Rightarrow> Some (((w * 16 + x) * 16 + y) * 16 + z)
      | _ \<Rightarrow> None)"

text \<open>\<open>getu4\<close>: the rune of a \<open>\u\<close> escape the text starts with.\<close>

definition getu4 :: "string \<Rightarrow> nat option" where
  "getu4 s = (if take 2 s = [CHR 0x5C, CHR ''u''] then hex4 (drop 2 s) else None)"

definition prepend :: "string \<Rightarrow> (string \<times> string) option \<Rightarrow> (string \<times> string) option" where
  "prepend xs r = map_option (\<lambda>(s, rest). (xs @ s, rest)) r"

function scan_string :: "string \<Rightarrow> (string \<times> string) option" where
  "scan_string [] = None"
| "scan_string (c # cs) =
     (if c = CHR 0x22 then Some ([], cs)
      else if c = CHR 0x5C then
        (case cs of
           [] \<Rightarrow> None
         | e # es \<Rightarrow>
             if e = CHR ''u'' then
               (case hex4 es of
                  None \<Rightarrow> None
                | Some r \<Rightarrow>
                    if 55296 \<le> r \<and> r < 57344 then
                      (case getu4 (drop 4 es) of
                         None \<Rightarrow> prepend replacement (scan_string (drop 4 es))
                       | Some r2 \<Rightarrow>
                           if r < 56320 \<and> 56320 \<le> r2 \<and> r2 < 57344
                           then prepend
                                  (encode_rune (65536 + (r - 55296) * 1024 + (r2 - 56320)))
                                  (scan_string (drop 10 es))
                           else prepend replacement (scan_string (drop 4 es)))
                    else prepend (encode_rune r) (scan_string (drop 4 es)))
             else
               (case simple_escape e of
                  None \<Rightarrow> None
                | Some b \<Rightarrow> prepend [b] (scan_string es)))
      else if (of_char c :: nat) < 32 then None
      else if (of_char c :: nat) < 128 then prepend [c] (scan_string cs)
      else if utf8_width (c # cs) = 0 then prepend replacement (scan_string cs)
      else prepend (c # take (utf8_width (c # cs) - 1) cs)
             (scan_string (drop (utf8_width (c # cs) - 1) cs)))"
  by pat_completeness auto
termination
  by (relation "measure length") auto

text \<open>An integer: digits without a leading zero, after an optional minus sign.\<close>

definition scan_digits :: "string \<Rightarrow> (int \<times> string) option" where
  "scan_digits s =
     (let ds = takeWhile is_digit s in
      if ds = [] \<or> (hd ds = CHR ''0'' \<and> length ds > 1) then None
      else Some (int (decimal 0 ds), dropWhile is_digit s))"

definition scan_number :: "string \<Rightarrow> (int \<times> string) option" where
  "scan_number s =
     (case s of
        [] \<Rightarrow> None
      | c # cs \<Rightarrow>
          if c = CHR ''-'' then map_option (\<lambda>(n, rest). (- n, rest)) (scan_digits cs)
          else scan_digits s)"

definition scan_literal :: "string \<Rightarrow> (json \<times> string) option" where
  "scan_literal s =
     (if HasPrefix s ''null'' then Some (JNull, drop 4 s)
      else if HasPrefix s ''true'' then Some (JBool True, drop 4 s)
      else if HasPrefix s ''false'' then Some (JBool False, drop 5 s)
      else map_option (\<lambda>(n, rest). (JNumber n, rest)) (scan_number s))"

text \<open>The recursive descent. The first argument bounds the number of values read; the
  length of the text is enough.\<close>

fun scan_value :: "nat \<Rightarrow> string \<Rightarrow> (json \<times> string) option"
and scan_elements :: "nat \<Rightarrow> string \<Rightarrow> (json list \<times> string) option"
and scan_members :: "nat \<Rightarrow> string \<Rightarrow> ((string \<times> json) list \<times> string) option" where
  "scan_value 0 s = None"
| "scan_value (Suc n) s =
     (case skip s of
        [] \<Rightarrow> None
      | c # cs \<Rightarrow>
          if c = CHR ''{'' then
            (case skip cs of
               [] \<Rightarrow> None
             | d # ds \<Rightarrow>
                 if d = CHR ''}'' then Some (JObject [], ds)
                 else map_option (\<lambda>(ms, rest). (JObject ms, rest)) (scan_members n cs))
          else if c = CHR ''['' then
            (case skip cs of
               [] \<Rightarrow> None
             | d # ds \<Rightarrow>
                 if d = CHR '']'' then Some (JArray [], ds)
                 else map_option (\<lambda>(xs, rest). (JArray xs, rest)) (scan_elements n cs))
          else if c = CHR 0x22 then
            map_option (\<lambda>(str, rest). (JString str, rest)) (scan_string cs)
          else scan_literal (c # cs))"
| "scan_elements 0 s = None"
| "scan_elements (Suc n) s =
     (case scan_value n s of
        None \<Rightarrow> None
      | Some (x, rest) \<Rightarrow>
          (case skip rest of
             [] \<Rightarrow> None
           | d # ds \<Rightarrow>
               if d = CHR '']'' then Some ([x], ds)
               else if d = CHR '','' then
                 map_option (\<lambda>(xs, rest'). (x # xs, rest')) (scan_elements n ds)
               else None))"
| "scan_members 0 s = None"
| "scan_members (Suc n) s =
     (case skip s of
        [] \<Rightarrow> None
      | q # qs \<Rightarrow>
          if q \<noteq> CHR 0x22 then None
          else
            (case scan_string qs of
               None \<Rightarrow> None
             | Some (k, rest) \<Rightarrow>
                 (case skip rest of
                    [] \<Rightarrow> None
                  | colon # after \<Rightarrow>
                      if colon \<noteq> CHR '':'' then None
                      else
                        (case scan_value n after of
                           None \<Rightarrow> None
                         | Some (x, rest') \<Rightarrow>
                             (case skip rest' of
                                [] \<Rightarrow> None
                              | d # ds \<Rightarrow>
                                  if d = CHR ''}'' then Some ([(k, x)], ds)
                                  else if d = CHR '','' then
                                    map_option (\<lambda>(ms, r). ((k, x) # ms, r)) (scan_members n ds)
                                  else None)))))"

text \<open>A JSON text is one value between white space.\<close>

definition parse_json :: "string \<Rightarrow> json option" where
  "parse_json s =
     (case scan_value (length s) s of
        None \<Rightarrow> None
      | Some (x, rest) \<Rightarrow> if skip rest = [] then Some x else None)"

subsection \<open>Decoding into a struct\<close>

text \<open>
  \<open>json.Unmarshal\<close> checks the syntax of the whole text first and leaves the target alone
  when the text is not JSON. Otherwise it stores the members of the object one after the
  other, in the order of the text: a key is matched to a field without regard to case, a
  key of no field is passed over, \<open>null\<close> changes nothing, and a value that does not fit
  its field is passed over too, the first such mismatch being the error returned at the end.
\<close>

fun decode_members ::
  "('a \<Rightarrow> string \<Rightarrow> json \<Rightarrow> lib_error option \<times> 'a) \<Rightarrow> (string \<times> json) list \<Rightarrow> 'a
     \<Rightarrow> lib_error option \<times> 'a" where
  "decode_members field [] a = (None, a)"
| "decode_members field ((k, x) # ms) a =
     (case field a (map ascii_lower k) x of
        (e, a') \<Rightarrow>
          (case decode_members field ms a' of
             (e', a'') \<Rightarrow> (if e = None then e' else e, a'')))"

definition decode_struct ::
  "('a \<Rightarrow> string \<Rightarrow> json \<Rightarrow> lib_error option \<times> 'a) \<Rightarrow> string \<Rightarrow> json \<Rightarrow> 'a
     \<Rightarrow> lib_error option \<times> 'a" where
  "decode_struct field name x a =
     (case x of
        JObject ms \<Rightarrow> decode_members field ms a
      | JNull \<Rightarrow> (None, a)
      | _ \<Rightarrow> (Some (UnmarshalTypeError name), a))"

definition go_Unmarshal ::
  "('a \<Rightarrow> string \<Rightarrow> json \<Rightarrow> lib_error option \<times> 'a) \<Rightarrow> string \<Rightarrow> string \<Rightarrow> 'a
     \<Rightarrow> lib_error option \<times> 'a" where
  "go_Unmarshal field name data a =
     (case parse_json data of
        None \<Rightarrow> (Some SyntaxError, a)
      | Some x \<Rightarrow> decode_struct field name x a)"

text \<open>The values of Go's \<open>int\<close>; a number outside does not fit an \<open>int\<close> field.\<close>

definition in_int64 :: "int \<Rightarrow> bool" where
  "in_int64 n = (- 9223372036854775808 \<le> n \<and> n \<le> 9223372036854775807)"

text \<open>An example of a result shape: a struct of two strings and an integer.\<close>

record Balance =
  Payment :: string
  Type :: string
  Amount :: int

definition Balance_field :: "Balance \<Rightarrow> string \<Rightarrow> json \<Rightarrow> lib_error option \<times> Balance" where
  "Balance_field b k x =
     (if k = ''payment'' then
        (case x of
           JString s \<Rightarrow> (None, b\<lparr>Payment := s\<rparr>)
         | JNull \<Rightarrow> (None, b)
         | _ \<Rightarrow> (Some (UnmarshalTypeError ''Balance.payment''), b))
      else if k = ''type'' then
        (case x of
           JString s \<Rightarrow> (None, b\<lparr>Type := s\<rparr>)
         | JNull \<Rightarrow> (None, b)
         | _ \<Rightarrow> (Some (UnmarshalTypeError ''Balance.type''), b))
      else if k = ''amount'' then
        (case x of
           JNumber n \<Rightarrow>
             if in_int64 n then (None, b\<lparr>Amount := n\<rparr>)
             else (Some (UnmarshalTypeError ''Balance.amount''), b)
         | JNull \<Rightarrow> (None, b)
         | _ \<Rightarrow> (Some (UnmarshalTypeError ''Balance.amount''), b))
      else (None, b))"

text \<open>The error envelope: an object whose member \<open>errors\<close> is an array of items.\<close>

definition Error_field :: "Error \<Rightarrow> string \<Rightarrow> json \<Rightarrow> lib_error option \<times> Error" where
  "Error_field e k x =
     (if k = ''code'' then
        (case x of
           JNumber n \<Rightarrow>
             if in_int64 n then (None, e\<lparr>Code := n\<rparr>)
             else (Some (UnmarshalTypeError ''Error.code''), e)
         | JNull \<Rightarrow> (None, e)
         | _ \<Rightarrow> (Some (UnmarshalTypeError ''Error.code''), e))
      else if k = ''description'' then
        (case x of
           JString s \<Rightarrow> (None, e\<lparr>Description := s\<rparr>)
         | JNull \<Rightarrow> (None, e)
         | _ \<Rightarrow> (Some (UnmarshalTypeError ''Error.description''), e))
      else if k = ''parameter'' then
        (case x of
           JString s \<Rightarrow> (None, e\<lparr>Parameter := Some s\<rparr>)
         | JNull \<Rightarrow> (None, e\<lparr>Parameter := None\<rparr>)
         | _ \<Rightarrow> (Some (UnmarshalTypeError ''Error.parameter''), e))
      else if k = ''documentation'' then
        (case x of
           JString s \<Rightarrow> (None, e\<lparr>Documentation := Some s\<rparr>)
         | JNull \<Rightarrow> (None, e\<lparr>Documentation := None\<rparr>)
         | _ \<Rightarrow> (Some (UnmarshalTypeError ''Error.documentation''), e))
      else (None, e))"

fun decode_items :: "json list \<Rightarrow> lib_error option \<times> Error list" where
  "decode_items [] = (None, [])"
| "decode_items (x # xs) =
     (case decode_struct Error_field ''Error'' x
             \<lparr>Code = 0, Description = [], Parameter = None, Documentation = None\<rparr> of
        (e, item) \<Rightarrow>
          (case decode_items xs of
             (e', items) \<Rightarrow> (if e = None then e' else e, item # items)))"

definition ErrorResponse_field ::
  "ErrorResponse \<Rightarrow> string \<Rightarrow> json \<Rightarrow> lib_error option \<times> ErrorResponse" where
  "ErrorResponse_field r k x =
     (if k = ''errors'' then
        (case x of
           JArray xs \<Rightarrow> (case decode_items xs of (e, items) \<Rightarrow> (e, r\<lparr>Errors := items\<rparr>))
         | JNull \<Rightarrow> (None, r\<lparr>Errors := []\<rparr>)
         | _ \<Rightarrow> (Some (UnmarshalTypeError ''ErrorResponse.errors''), r))
      else (None, r))"

subsection \<open>Encoding a struct\<close>

function show_nat :: "nat \<Rightarrow> string" where
  "show_nat n =
     (if n < 10 then [''0123456789'' ! n]
      else show_nat (n div 10) @ [''0123456789'' ! (n mod 10)])"
  by pat_completeness auto
termination
  by (relation "measure id") auto

definition show_int :: "int \<Rightarrow> string" where
  "show_int i = (if i < 0 then CHR ''-'' # show_nat (nat (- i)) else show_nat (nat i))"

text \<open>
  \<open>json.Marshal\<close> writes a string between quotes. Bytes from \<open>0x20\<close> to \<open>0x7F\<close> stand for
  themselves, but for the quote and the backslash, which get a backslash in front, and
  \<open><\<close>, \<open>>\<close> and \<open>&\<close>, which are written as \<open>\u\<close> escapes like the bytes below \<open>0x20\<close> (of
  these, backspace, form feed, line feed, carriage return and tab have the short escapes
  \<open>\b\<close>, \<open>\f\<close>, \<open>\n\<close>, \<open>\r\<close> and \<open>\t\<close>, the first two since Go 1.22). An encoded rune is copied,
  but for \<open>U+2028\<close> and \<open>U+2029\<close>, which are escaped; a byte from \<open>0x80\<close> on that starts no
  encoded rune is written as the escape of the replacement character.
\<close>

definition html_safe :: "char \<Rightarrow> bool" where
  "html_safe b =
     (32 \<le> (of_char b :: nat) \<and>
      b \<notin> set [CHR 0x22, CHR 0x5C, CHR ''<'', CHR ''>'', CHR ''&''])"

definition escape_byte :: "char \<Rightarrow> string" where
  "escape_byte b =
     (if html_safe b then [b]
      else if b = CHR 0x5C \<or> b = CHR 0x22 then [CHR 0x5C, b]
      else if b = CHR 0x08 then [CHR 0x5C, CHR ''b'']
      else if b = CHR 0x0C then [CHR 0x5C, CHR ''f'']
      else if b = CHR 0x0A then [CHR 0x5C, CHR ''n'']
      else if b = CHR 0x0D then [CHR 0x5C, CHR ''r'']
      else if b = CHR 0x09 then [CHR 0x5C, CHR ''t'']
      else [CHR 0x5C, CHR ''u'', CHR ''0'', CHR ''0'',
            hex_lower (of_char b div 16), hex_lower (of_char b)])"

function quoted :: "string \<Rightarrow> string" where
  "quoted [] = []"
| "quoted (b # bs) =
     (if (of_char b :: nat) < 128 then escape_byte b @ quoted bs
      else if utf8_width (b # bs) = 0 then CHR 0x5C # ''ufffd'' @ quoted bs
      else if take 3 (b # bs) = [CHR 0xE2, CHR 0x80, CHR 0xA8]
        then CHR 0x5C # ''u2028'' @ quoted (drop 2 bs)
      else if take 3 (b # bs) = [CHR 0xE2, CHR 0x80, CHR 0xA9]
        then CHR 0x5C # ''u2029'' @ quoted (drop 2 bs)
      else b # take (utf8_width (b # bs) - 1) bs @ quoted (drop (utf8_width (b # bs) - 1) bs))"
  by pat_completeness auto
termination
  by (relation "measure length") auto

definition appendString :: "string \<Rightarrow> string" where
  "appendString src = CHR 0x22 # quoted src @ [CHR 0x22]"

text \<open>\<open>json.Marshal\<close> of the example struct: its three fields in their order.\<close>

definition Marshal_Balance :: "Balance \<Rightarrow> string" where
  \<open>Marshal_Balance b =
     ''{"payment":'' @ appendString (Payment b) @ '',"type":'' @ appendString (Type b)
       @ '',"amount":'' @ show_int (Amount b) @ ''}''\<close>

subsection \<open>The library and a transport\<close>

text \<open>\<open>http.NewRequest\<close> refuses a method that is not a token and a URL it cannot parse.\<close>

definition is_token :: "char \<Rightarrow> bool" where
  "is_token c =
     (is_lower c \<or> is_upper c \<or> is_digit c \<or> c \<in> set ''!#$%&*+-.^_`|~'' \<or> c = CHR 0x27)"

definition go_NewRequest_check :: "string \<Rightarrow> string \<Rightarrow> lib_error option" where
  "go_NewRequest_check method urlStr =
     (if \<not> list_all is_token method then Some InvalidMethod
      else (case go_url_Parse urlStr of Inl e \<Rightarrow> Some e | Inr u \<Rightarrow> None))"

definition go :: "(lib_error, url, Balance, Balance) stdlib" where
  "go = \<lparr>url_Parse = go_url_Parse,
         url_String = go_url_String,
         json_Marshal = (\<lambda>d. Inr (Marshal_Balance d)),
         NewRequest_check = go_NewRequest_check,
         runtime_Version = ''go1.21.0'',
         json_Unmarshal = go_Unmarshal Balance_field ''Balance'',
         json_Unmarshal_ErrorResponse = go_Unmarshal ErrorResponse_field ''ErrorResponse'',
         Error_text = lib_error_text\<rparr>"

text \<open>A transport that answers every request with the same status code and body, and the
  client that uses it.\<close>

definition serve :: "int \<Rightarrow> string \<Rightarrow> request \<Rightarrow> lib_error + lib_error response" where
  "serve status body r = Inr \<lparr>StatusCode = status, Body = Inr body\<rparr>"

definition test_client :: "int \<Rightarrow> string \<Rightarrow> lib_error Client" where
  "test_client status body = New (serve status body) ''test-key''"

definition no_balance :: Balance where
  "no_balance = \<lparr>Payment = [], Type = [], Amount = 0\<rparr>"

text \<open>Response bodies: the error envelope of an invalid originator, a text that is not
  JSON, and a balance whose amount is a string.\<close>

definition invalid_originator :: string where
  \<open>invalid_originator =
     ''{"errors":[{"code":9,"description":"is invalid","parameter":"originator"}]}''\<close>

definition not_json :: string where
  "not_json = ''not json''"

definition amount_mismatch :: string where
  \<open>amount_mismatch = ''{"payment":"prepaid","amount":"x"}''\<close>

section \<open>Properties\<close>

subsection \<open>The structure of a call\<close>

text \<open>Once a response has been read, the call returns what the classification of its
  status code and body gives.\<close>

lemma Request_classify:
  assumes "response_of lib c method path data = Some (status, body)"
  shows "Request lib c v method path data =
           Return (fst (classify lib v status body)) (snd (classify lib v status body))
             (logged lib c method path data body)"
  using assms
  by (auto simp: Request_def response_of_def logged_def Let_def
           split: sum.splits option.splits prod.splits)

lemma classify_500: "classify lib v 500 body = (Some ErrUnexpectedResponse, v)"
  by (simp add: classify_def)

text \<open>The request built depends neither on the debug logger nor on the HTTP client.\<close>

lemma set_headers_DebugLog:
  "set_headers lib (c\<lparr>DebugLog := l\<rparr>) r = set_headers lib c r"
  by (simp add: set_headers_def)

lemma set_headers_HTTPClient:
  "set_headers lib (c\<lparr>HTTPClient := h\<rparr>) r = set_headers lib c r"
  by (simp add: set_headers_def)

lemma build_request_DebugLog:
  "build_request lib (c\<lparr>DebugLog := l\<rparr>) method path data = build_request lib c method path data"
  by (simp add: build_request_def set_headers_DebugLog split: sum.splits)

lemma build_request_HTTPClient:
  "build_request lib (c\<lparr>HTTPClient := h\<rparr>) method path data = build_request lib c method path data"
  by (simp add: build_request_def set_headers_HTTPClient split: sum.splits)

text \<open>The prefix test, and the path as resolved.\<close>

lemma HasPrefix_take: "HasPrefix s pre \<longleftrightarrow> take (length pre) s = pre"
proof
  assume "HasPrefix s pre"
  then show "take (length pre) s = pre"
    by (simp add: HasPrefix_def)
next
  assume eq: "take (length pre) s = pre"
  have "length (take (length pre) s) \<le> length s"
    by simp
  with eq show "HasPrefix s pre"
    by (simp add: HasPrefix_def)
qed

lemma HasPrefix_https: "HasPrefix s ''https://'' \<longleftrightarrow> take 8 s = ''https://''"
proof -
  have "length ''https://'' = (8::nat)"
    by simp
  then show ?thesis
    by (simp only: HasPrefix_take)
qed

lemma HasPrefix_http: "HasPrefix s ''http://'' \<longleftrightarrow> take 7 s = ''http://''"
proof -
  have "length ''http://'' = (7::nat)"
    by simp
  then show ?thesis
    by (simp only: HasPrefix_take)
qed

lemma resolve_cases:
  "resolve path =
     (if HasPrefix path ''https://'' \<or> HasPrefix path ''http://'' then path
      else Endpoint @ ''/'' @ path)"
  by (simp add: resolve_def)

lemma resolve_exact:
  "resolve p = p \<longleftrightarrow> take 8 p = ''https://'' \<or> take 7 p = ''http://''"
proof (cases "HasPrefix p ''https://'' \<or> HasPrefix p ''http://''")
  case True
  then show ?thesis
    by (simp add: resolve_cases HasPrefix_https HasPrefix_http)
next
  case False
  then have "resolve p = Endpoint @ ''/'' @ p"
    by (simp add: resolve_cases)
  then have "length (resolve p) \<noteq> length p"
    by (simp add: Endpoint_def)
  then have "resolve p \<noteq> p"
    by auto
  with False show ?thesis
    by (simp add: HasPrefix_https HasPrefix_http)
qed

text \<open>The HTTP client is asked once, for the request built: the call depends on the client
  only through its answer to that request.\<close>

lemma Request_depends_on_answer:
  assumes "build_request lib c method path data = Inr r" and "client r = client' r"
  shows "Request lib (c\<lparr>HTTPClient := Some client\<rparr>) v method path data =
         Request lib (c\<lparr>HTTPClient := Some client'\<rparr>) v method path data"
  using assms by (simp add: Request_def build_request_HTTPClient)

text \<open>A classification with an error leaves the result target alone, unless the error is
  the decode failure of a 200 or 201 body.\<close>

lemma classify_error_cases:
  assumes "classify lib v status body = (Some e, v')"
  shows "v' = v \<or>
         ((status = 200 \<or> status = 201) \<and> (\<exists>le. json_Unmarshal lib body v = (Some le, v')))"
  using assms
  by (auto simp: classify_def split: if_splits prod.splits option.splits)

text \<open>A call that returns either never read a response, and then returns an error and leaves
  the result target alone, or returns what the classification gives.\<close>

lemma Request_cases:
  assumes "Request lib c v method path data = Return err v' l"
  shows "(response_of lib c method path data = None \<and> v' = v \<and> err \<noteq> None) \<or>
         (\<exists>status body. response_of lib c method path data = Some (status, body) \<and>
            classify lib v status body = (err, v'))"
  using assms
  by (auto simp: Request_def response_of_def Let_def
           split: sum.splits option.splits prod.splits)

text \<open>The parts of the request built.\<close>

lemma build_request_URL:
  assumes "build_request lib c method path data = Inr r"
  shows "\<exists>uri. url_Parse lib (resolve path) = Inr uri \<and> URL r = url_String lib uri"
  using assms
  by (auto simp: build_request_def http_NewRequest_def set_headers_def Let_def
           split: sum.splits option.splits)

lemma build_request_parts:
  assumes "build_request lib c method path data = Inr r"
  shows "\<exists>uri jsonEncoded.
           url_Parse lib (resolve path) = Inr uri \<and> encode lib data = Inr jsonEncoded \<and>
           URL r = url_String lib uri \<and> RequestBody r = jsonEncoded \<and>
           Method r = (if method = [] then ''GET'' else method)"
  using assms
  by (auto simp: build_request_def http_NewRequest_def set_headers_def Let_def
           split: sum.splits option.splits)

lemma build_request_Header:
  assumes "build_request lib c method path data = Inr r"
  shows "Header r =
         [''Content-Type'' \<mapsto> [''application/json''],
          ''Accept'' \<mapsto> [''application/json''],
          ''Authorization'' \<mapsto> [''AccessKey '' @ AccessKey c],
          ''User-Agent'' \<mapsto> [''MessageBird/ApiClient/'' @ ClientVersion @ '' Go/'' @ runtime_Version lib]]"
  using assms
  by (auto simp: build_request_def http_NewRequest_def set_headers_def Header_Set_def Let_def
           split: sum.splits option.splits)

text \<open>Another spelling of a scheme is not the prefix tested for.\<close>

lemma scheme_variant_no_prefix:
  assumes "scheme_variant path"
  shows "\<not> HasPrefix path ''https://''" and "\<not> HasPrefix path ''http://''"
proof -
  have low7: "map ascii_lower ''https:/'' \<noteq> ''http://''"
    by (simp add: ascii_lower_def)
  have t7: "take 7 path = take 7 (take 8 path)"
    by simp
  show "\<not> HasPrefix path ''https://''"
  proof
    assume "HasPrefix path ''https://''"
    then have p8: "take 8 path = ''https://''"
      by (simp only: HasPrefix_https)
    then have "take 7 path = ''https:/''"
      using t7 by simp
    with p8 assms low7 show False
      by (simp add: scheme_variant_def)
  qed
  show "\<not> HasPrefix path ''http://''"
  proof
    assume "HasPrefix path ''http://''"
    then have p7: "take 7 path = ''http://''"
      by (simp only: HasPrefix_http)
    with assms have l8: "map ascii_lower (take 8 path) = ''https://''"
      by (simp add: scheme_variant_def)
    have "map ascii_lower (take 7 path) = take 7 (map ascii_lower (take 8 path))"
      by (simp add: take_map)
    with l8 have "map ascii_lower (take 7 path) = ''https:/''"
      by simp
    with p7 show False
      by (simp add: ascii_lower_def)
  qed
qed

subsection \<open>The evaluation library at the inputs used below\<close>

lemma resolve_balance: "resolve ''balance'' = ''https://rest.messagebird.com/balance''"
  by (simp add: resolve_def HasPrefix_def Endpoint_def)

lemma go_Parse_balance:
  "go_url_Parse ''https://rest.messagebird.com/balance'' =
     Inr \<lparr>Scheme = ''https'', Host = ''rest.messagebird.com'', Path = ''/balance''\<rparr>"
  by (simp add: go_url_Parse_def HasPrefix_def is_ctl_def)

lemma go_String_balance:
  "go_url_String \<lparr>Scheme = ''https'', Host = ''rest.messagebird.com'', Path = ''/balance''\<rparr> =
     ''https://rest.messagebird.com/balance''"
  by (simp add: go_url_String_def EscapedPath_def validEncoded_def shouldEscape_def
        is_lower_def is_upper_def is_digit_def)

lemma go_build_balance:
  "build_request go (test_client status body) ''GET'' ''balance'' None =
     Inr (set_headers go (test_client status body)
            \<lparr>Method = ''GET'', URL = ''https://rest.messagebird.com/balance'',
             Header = Map.empty, RequestBody = []\<rparr>)"
  by (simp add: build_request_def resolve_balance go_def go_Parse_balance go_String_balance
        encode_def http_NewRequest_def go_NewRequest_check_def is_token_def
        is_lower_def is_upper_def is_digit_def)

lemma go_response_of:
  "response_of go (test_client status body) ''GET'' ''balance'' None = Some (status, body)"
  by (simp add: response_of_def go_build_balance) (simp add: test_client_def New_def serve_def)

lemma go_logged:
  "logged go (test_client status body) ''GET'' ''balance'' None b = None"
  by (simp add: logged_def go_build_balance)
     (simp add: test_client_def New_def debug_request_def debug_response_def Printf_def)

lemma decode_invalid_originator:
  "json_Unmarshal_ErrorResponse go invalid_originator \<lparr>Errors = []\<rparr> =
     (None, \<lparr>Errors = [\<lparr>Code = 9, Description = ''is invalid'',
                          Parameter = Some ''originator'', Documentation = None\<rparr>]\<rparr>)"
  by code_simp

lemma decode_not_json:
  "json_Unmarshal go not_json b = (Some SyntaxError, b)"
  "json_Unmarshal_ErrorResponse go not_json r = (Some SyntaxError, r)"
  by (simp_all add: go_def go_Unmarshal_def parse_json_def not_json_def scan_literal_def
       HasPrefix_def skip_def is_space_def scan_number_def scan_digits_def is_digit_def)

lemma decode_amount_mismatch:
  "json_Unmarshal go amount_mismatch no_balance =
     (Some (UnmarshalTypeError ''Balance.amount''), \<lparr>Payment = ''prepaid'', Type = [], Amount = 0\<rparr>)"
  by code_simp


lemma go_Error_text: "Error_text go = lib_error_text"
  by (simp add: go_def)

lemma go_runtime_Version: "runtime_Version go = ''go1.21.0''"
  by (simp add: go_def)

lemma test_client_AccessKey: "AccessKey (test_client status body) = ''test-key''"
  by (simp add: test_client_def New_def)

lemmas go_build_defs =
  build_request_def resolve_def HasPrefix_def Endpoint_def go_def go_url_Parse_def
  go_url_String_def EscapedPath_def validEncoded_def shouldEscape_def escape_def hex_digit_def
  is_ctl_def is_lower_def is_upper_def is_digit_def is_token_def encode_def
  http_NewRequest_def go_NewRequest_check_def set_headers_def

lemma go_URL_relative:
  "map_sum id URL (build_request go (test_client 200 []) ''GET'' ''balance'' None) =
     Inr ''https://rest.messagebird.com/balance''"
  by (simp add: go_build_defs)

lemma go_URL_absolute:
  "map_sum id URL (build_request go (test_client 200 []) ''GET'' ''http://localhost/x'' None) =
     Inr ''http://localhost/x''"
  by (simp add: go_build_defs)

lemma go_URL_space:
  "map_sum id URL (build_request go (test_client 200 []) ''GET'' ''a b'' None) =
     Inr ''https://rest.messagebird.com/a%20b''"
  by (simp add: go_build_defs)

lemma go_URL_variant:
  "map_sum id URL (build_request go (test_client 200 []) ''GET'' ''HTTP://host/x'' None) =
     Inr ''https://rest.messagebird.com/HTTP://host/x''"
  by (simp add: go_build_defs)

subsection \<open>The claims\<close>

text \<open>
  C1. For every response with status code 500, \<open>Request\<close> fails with the fixed sentinel
  \<open>ErrUnexpectedResponse\<close>, whatever the body is: the returned error and the result target
  do not depend on the body, which no decoder is applied to.
\<close>

theorem C1_status_500_unavailable:
  assumes "response_of lib c method path data = Some (500, body)"
  shows "Request lib c v method path data =
           Return (Some ErrUnexpectedResponse) v (logged lib c method path data body)"
  using Request_classify [OF assms, of v] by (simp add: classify_500)

text \<open>An empty body, a JSON body and a body that is not JSON, each served with status 500.\<close>

theorem C1_status_500_unavailable_witness:
  "Request go (test_client 500 []) no_balance ''GET'' ''balance'' None =
     Return (Some ErrUnexpectedResponse) no_balance None \<and>
   Request go (test_client 500 invalid_originator) no_balance ''GET'' ''balance'' None =
     Return (Some ErrUnexpectedResponse) no_balance None \<and>
   Request go (test_client 500 not_json) no_balance ''GET'' ''balance'' None =
     Return (Some ErrUnexpectedResponse) no_balance None"
  using C1_status_500_unavailable [where v = no_balance and body = "[]", OF go_response_of]
    C1_status_500_unavailable [where v = no_balance and body = invalid_originator, OF go_response_of]
    C1_status_500_unavailable [where v = no_balance and body = not_json, OF go_response_of]
  by (simp add: go_logged)

text \<open>
  C2 claims that the URL sent equals the endpoint, \<open>/\<close> and the path. \<open>Request\<close> does not
  send the string it resolves: it parses it and sends \<open>uri.String()\<close> (lines 65 and 78),
  and \<open>net/url\<close> escapes what a path may not hold.

  C2, as amended. The string \<open>Request\<close> parses as the URL is the endpoint, \<open>/\<close> and the
  path when the path starts with neither \<open>https://\<close> nor \<open>http://\<close>, and the path as it is
  otherwise; the URL of the request sent is the \<open>String()\<close> form of the URL parsed from it,
  which is that string whenever the library writes the parsed URL back unchanged.
\<close>

theorem C2_resolved_url:
  assumes "build_request lib c method path data = Inr r"
  shows "resolve path =
           (if HasPrefix path ''https://'' \<or> HasPrefix path ''http://'' then path
            else Endpoint @ ''/'' @ path) \<and>
         (\<exists>uri. url_Parse lib (resolve path) = Inr uri \<and> URL r = url_String lib uri \<and>
                (url_String lib uri = resolve path \<longrightarrow> URL r = resolve path))"
  using build_request_URL [OF assms] resolve_cases [of path] by auto

text \<open>A path with a space: the request goes to \<open>a%20b\<close>.\<close>

theorem C2_sent_url_counterexample:
  "\<not> HasPrefix ''a b'' ''https://'' \<and> \<not> HasPrefix ''a b'' ''http://'' \<and>
   map_sum id URL (build_request go (test_client 200 []) ''GET'' ''a b'' None) =
     Inr ''https://rest.messagebird.com/a%20b'' \<and>
   ''https://rest.messagebird.com/a%20b'' \<noteq> Endpoint @ ''/'' @ ''a b''"
  by (simp add: go_URL_space) (simp add: HasPrefix_def Endpoint_def)

text \<open>A relative path and an absolute URL, both sent as resolved.\<close>

theorem C2_resolved_url_witness:
  "map_sum id URL (build_request go (test_client 200 []) ''GET'' ''balance'' None) =
     Inr ''https://rest.messagebird.com/balance'' \<and>
   map_sum id URL (build_request go (test_client 200 []) ''GET'' ''http://localhost/x'' None) =
     Inr ''http://localhost/x'' \<and>
   (\<exists>uri. go_url_Parse ''https://rest.messagebird.com/balance'' = Inr uri \<and>
          go_url_String uri = ''https://rest.messagebird.com/balance'')"
  using C2_resolved_url [OF go_build_balance, of 200 "[]"]
  by (simp add: go_URL_relative go_URL_absolute go_Parse_balance go_String_balance)



text \<open>
  C4. For every response whose status code is not 200, 201 or 500 and whose body decodes
  as an error envelope, \<open>Request\<close> fails with that envelope: the error carries exactly the
  decoded items, for every such status code alike.
\<close>

theorem C4_structured_error:
  assumes "response_of lib c method path data = Some (status, body)"
    and "status \<noteq> 200" and "status \<noteq> 201" and "status \<noteq> 500"
    and "json_Unmarshal_ErrorResponse lib body \<lparr>Errors = []\<rparr> = (None, errorResponse)"
  shows "Request lib c v method path data =
           Return (Some (APIError errorResponse)) v (logged lib c method path data body)"
  using Request_classify [OF assms(1), of v] assms(2-)
  by (simp add: classify_def)

text \<open>Status 422 with the envelope of the invalid originator: the one item has code 9,
  description \<open>is invalid\<close> and parameter \<open>originator\<close>.\<close>

theorem C4_structured_error_witness:
  "Request go (test_client 422 invalid_originator) no_balance ''GET'' ''balance'' None =
     Return
       (Some (APIError \<lparr>Errors = [\<lparr>Code = 9, Description = ''is invalid'',
                                    Parameter = Some ''originator'', Documentation = None\<rparr>]\<rparr>))
       no_balance None"
  using C4_structured_error [where status = 422 and v = no_balance,
      OF go_response_of _ _ _ decode_invalid_originator]
  by (simp add: go_logged)

text \<open>
  C5. For every response with status 200 or 201 whose body the decoder rejects,
  \<open>Request\<close> fails with the error of \<open>fmt.Errorf\<close>, whose message contains the raw body
  and the text of the decoder's error.
\<close>

theorem C5_decode_error_message:
  assumes "response_of lib c method path data = Some (status, body)"
    and "status = 200 \<or> status = 201"
    and "json_Unmarshal lib body v = (Some e, v')"
  shows "\<exists>msg. Request lib c v method path data =
                 Return (Some (Errorf msg)) v' (logged lib c method path data body) \<and>
               msg = ''could not decode response JSON, '' @ body @ '': '' @ Error_text lib e \<and>
               sublist body msg \<and> sublist (Error_text lib e) msg"
proof -
  let ?msg = "''could not decode response JSON, '' @ body @ '': '' @ Error_text lib e"
  have "classify lib v status body = (Some (Errorf ?msg), v')"
    using assms(2,3) by (auto simp: classify_def)
  then have "Request lib c v method path data =
      Return (Some (Errorf ?msg)) v' (logged lib c method path data body)"
    using Request_classify [OF assms(1), of v] by simp
  moreover have "sublist body ?msg"
    by (rule sublist_appendI)
  moreover have "sublist (Error_text lib e) ?msg"
    using sublist_append_leftI [of "Error_text lib e" "''could not decode response JSON, '' @ body @ '': ''"]
    by simp
  ultimately show ?thesis
    by blast
qed

text \<open>Status 200 with a body that is not JSON.\<close>

theorem C5_decode_error_message_witness:
  "Request go (test_client 200 not_json) no_balance ''GET'' ''balance'' None =
     Return (Some (Errorf ''could not decode response JSON, not json: invalid character''))
       no_balance None \<and>
   sublist ''not json'' ''could not decode response JSON, not json: invalid character'' \<and>
   sublist ''invalid character'' ''could not decode response JSON, not json: invalid character''"
  using C5_decode_error_message [where status = 200 and v = no_balance,
      OF go_response_of _ decode_not_json(1)]
  by (simp add: go_logged go_Error_text not_json_def)

text \<open>
  C6. For every response whose status code is not 200, 201 or 500 and whose body does not
  decode as an error envelope, \<open>Request\<close> fails with the decoder's error itself, not
  wrapped: it is a different kind of error from the one an undecodable 200 or 201 body
  gives.
\<close>

theorem C6_raw_parse_error:
  assumes "response_of lib c method path data = Some (status, body)"
    and "status \<noteq> 200" and "status \<noteq> 201" and "status \<noteq> 500"
    and "json_Unmarshal_ErrorResponse lib body \<lparr>Errors = []\<rparr> = (Some e, r)"
  shows "Request lib c v method path data =
           Return (Some (Library e)) v (logged lib c method path data body) \<and>
         (\<forall>msg. Library e \<noteq> (Errorf msg :: 'e error))"
  using Request_classify [OF assms(1), of v] assms(2-)
  by (simp add: classify_def)

text \<open>Status 400 with a body that is not JSON.\<close>

theorem C6_raw_parse_error_witness:
  "Request go (test_client 400 not_json) no_balance ''GET'' ''balance'' None =
     Return (Some (Library SyntaxError)) no_balance None"
  using C6_raw_parse_error [where status = 400 and v = no_balance,
      OF go_response_of _ _ _ decode_not_json(2)]
  by (simp add: go_logged)

text \<open>
  C7 claims that the result target is untouched on every error path, the decode failure of
  a 200 or 201 body included. \<open>Request\<close> hands the target itself to \<open>json.Unmarshal\<close>
  (line 120), so after a decode failure the target holds what the decoder left in it, and
  \<open>encoding/json\<close> stores the members that fit before it reports the one that does not.

  C7, as amended. When \<open>Request\<close> returns an error, the result target is untouched, unless
  the error is the decode failure of a 200 or 201 body: then the target holds exactly what
  \<open>json.Unmarshal\<close> left in it.
\<close>

theorem C7_sink_after_error:
  assumes "Request lib c v method path data = Return (Some e) v' l"
  shows "v' = v \<or>
         (\<exists>status body le.
            response_of lib c method path data = Some (status, body) \<and>
            (status = 200 \<or> status = 201) \<and>
            json_Unmarshal lib body v = (Some le, v'))"
  using Request_cases [OF assms] classify_error_cases [of lib v _ _ e v']
  by blast

text \<open>Status 200 with a balance whose amount is a string: the call fails and the payment
  has been stored.\<close>

theorem C7_sink_untouched_counterexample:
  "Request go (test_client 200 amount_mismatch) no_balance ''GET'' ''balance'' None =
     Return
       (Some (Errorf (''could not decode response JSON, '' @ amount_mismatch @
                        '': json: cannot unmarshal into field Balance.amount'')))
       \<lparr>Payment = ''prepaid'', Type = [], Amount = 0\<rparr> None \<and>
   \<lparr>Payment = ''prepaid'', Type = [], Amount = 0\<rparr> \<noteq> no_balance"
proof
  show "Request go (test_client 200 amount_mismatch) no_balance ''GET'' ''balance'' None =
     Return
       (Some (Errorf (''could not decode response JSON, '' @ amount_mismatch @
                        '': json: cannot unmarshal into field Balance.amount'')))
       \<lparr>Payment = ''prepaid'', Type = [], Amount = 0\<rparr> None"
    using Request_classify [OF go_response_of, of 200 amount_mismatch no_balance]
    by (simp add: classify_def decode_amount_mismatch go_logged go_Error_text)
  show "\<lparr>Payment = ''prepaid'', Type = [], Amount = 0\<rparr> \<noteq> no_balance"
    by (simp add: no_balance_def)
qed

text \<open>An error that leaves the target alone, and the decode failure that does not.\<close>

theorem C7_sink_after_error_witness:
  "Request go (test_client 400 not_json) no_balance ''GET'' ''balance'' None =
     Return (Some (Library SyntaxError)) no_balance None \<and>
   Request go (test_client 200 amount_mismatch) no_balance ''GET'' ''balance'' None =
     Return
       (Some (Errorf (''could not decode response JSON, '' @ amount_mismatch @
                        '': json: cannot unmarshal into field Balance.amount'')))
       (snd (json_Unmarshal go amount_mismatch no_balance)) None \<and>
   response_of go (test_client 200 amount_mismatch) ''GET'' ''balance'' None =
     Some (200, amount_mismatch)"
proof -
  have a: "Request go (test_client 400 not_json) no_balance ''GET'' ''balance'' None =
     Return (Some (Library SyntaxError)) no_balance None"
    using Request_classify [OF go_response_of, of 400 not_json no_balance]
    by (simp add: classify_def decode_not_json go_logged)
  have b: "Request go (test_client 200 amount_mismatch) no_balance ''GET'' ''balance'' None =
     Return
       (Some (Errorf (''could not decode response JSON, '' @ amount_mismatch @
                        '': json: cannot unmarshal into field Balance.amount'')))
       (snd (json_Unmarshal go amount_mismatch no_balance)) None"
    using Request_classify [OF go_response_of, of 200 amount_mismatch no_balance]
    by (simp add: classify_def decode_amount_mismatch go_logged go_Error_text)
  show ?thesis
    using a b C7_sink_after_error [OF a] C7_sink_after_error [OF b]
    by (simp add: go_response_of)
qed

text \<open>
  C8. The request \<open>Request\<close> hands to the HTTP client carries exactly the four headers
  \<open>Content-Type: application/json\<close>, \<open>Accept: application/json\<close>, \<open>Authorization\<close> and
  \<open>User-Agent\<close>; the value of \<open>Authorization\<close> is \<open>AccessKey\<close>, a space and the configured
  access key.
\<close>

theorem C8_headers:
  assumes "build_request lib c method path data = Inr r"
  shows "dom (Header r) = {''Content-Type'', ''Accept'', ''Authorization'', ''User-Agent''} \<and>
         Header r ''Content-Type'' = Some [''application/json''] \<and>
         Header r ''Accept'' = Some [''application/json''] \<and>
         Header r ''Authorization'' = Some [''AccessKey '' @ AccessKey c] \<and>
         Header r ''User-Agent'' =
           Some [''MessageBird/ApiClient/4.2.1 Go/'' @ runtime_Version lib]"
  unfolding build_request_Header [OF assms]
  by (auto simp: ClientVersion_def)

text \<open>The request for the balance, built for a client with the key \<open>test-key\<close>.\<close>

theorem C8_headers_witness:
  "dom (Header (projr (build_request go (test_client 200 []) ''GET'' ''balance'' None))) =
     {''Content-Type'', ''Accept'', ''Authorization'', ''User-Agent''} \<and>
   Header (projr (build_request go (test_client 200 []) ''GET'' ''balance'' None))
     ''Authorization'' = Some [''AccessKey test-key''] \<and>
   Header (projr (build_request go (test_client 200 []) ''GET'' ''balance'' None))
     ''User-Agent'' = Some [''MessageBird/ApiClient/4.2.1 Go/go1.21.0'']"
  using C8_headers [OF go_build_balance, of 200 "[]"]
  by (simp add: go_build_balance go_runtime_Version test_client_AccessKey)

text \<open>
  C9. Whether a debug logger is configured, and what it holds, does not alter a call: two
  clients that differ only in \<open>DebugLog\<close> get the same returned error and the same value
  in the result target (or both panic), and the same request is built for both.
\<close>

theorem C9_debug_log_no_influence:
  "outcome (Request lib (c\<lparr>DebugLog := l1\<rparr>) v method path data) =
     outcome (Request lib (c\<lparr>DebugLog := l2\<rparr>) v method path data) \<and>
   build_request lib (c\<lparr>DebugLog := l1\<rparr>) method path data =
     build_request lib (c\<lparr>DebugLog := l2\<rparr>) method path data"
  by (simp add: Request_def build_request_DebugLog Let_def
           split: sum.splits option.splits prod.splits)

text \<open>The same call with a logger and without one.\<close>

theorem C9_debug_log_no_influence_witness:
  "Request go ((test_client 200 not_json)\<lparr>DebugLog := Some []\<rparr>) no_balance
       ''GET'' ''balance'' None =
     Return (Some (Errorf ''could not decode response JSON, not json: invalid character''))
       no_balance
       (Some [''HTTP REQUEST: GET https://rest.messagebird.com/balance'',
              ''HTTP RESPONSE: not json'']) \<and>
   Request go ((test_client 200 not_json)\<lparr>DebugLog := None\<rparr>) no_balance
       ''GET'' ''balance'' None =
     Return (Some (Errorf ''could not decode response JSON, not json: invalid character''))
       no_balance None"
proof -
  have resp: "response_of go ((test_client 200 not_json)\<lparr>DebugLog := l\<rparr>)
                ''GET'' ''balance'' None = Some (200, not_json)" for l
    by (simp add: response_of_def build_request_DebugLog go_build_balance)
       (simp add: test_client_def New_def serve_def)
  have log: "logged go ((test_client 200 not_json)\<lparr>DebugLog := l\<rparr>)
                ''GET'' ''balance'' None not_json =
             Printf (Printf l ''HTTP REQUEST: GET https://rest.messagebird.com/balance'')
               ''HTTP RESPONSE: not json''" for l
    by (simp add: logged_def build_request_DebugLog go_build_balance)
       (simp add: debug_request_def debug_response_def set_headers_def not_json_def)
  have cls: "classify go no_balance 200 not_json =
       (Some (Errorf ''could not decode response JSON, not json: invalid character''), no_balance)"
    by (simp add: classify_def decode_not_json go_Error_text) (simp add: not_json_def)
  show ?thesis
    using C9_debug_log_no_influence [of go "Some []" "test_client 200 not_json" no_balance
        "''GET''" "''balance''" None None]
      Request_classify [OF resp, of "Some []" no_balance]
      Request_classify [OF resp, of None no_balance]
    by (simp add: log cls Printf_def)
qed

text \<open>
  C10. The test for an absolute URL is an exact prefix test for \<open>https://\<close> and
  \<open>http://\<close> in lower case: a path is left as it is exactly when its first eight bytes
  are \<open>https://\<close> or its first seven are \<open>http://\<close>, and gets the endpoint and \<open>/\<close> in
  front otherwise. So for a path that starts with another spelling of either, \<open>Request\<close>
  parses the endpoint, \<open>/\<close> and the path: a failure of that parse is the error returned,
  and the URL of a request built comes from it.
\<close>

theorem C10_case_sensitive_scheme:
  assumes "scheme_variant path"
  shows "(resolve p = p \<longleftrightarrow> take 8 p = ''https://'' \<or> take 7 p = ''http://'') \<and>
         (resolve p = p \<or> resolve p = Endpoint @ ''/'' @ p) \<and>
         resolve path = Endpoint @ ''/'' @ path \<and>
         (\<forall>e. url_Parse lib (Endpoint @ ''/'' @ path) = Inl e \<longrightarrow>
              Request lib c v method path data = Return (Some (Library e)) v (DebugLog c)) \<and>
         (\<forall>r. build_request lib c method path data = Inr r \<longrightarrow>
              (\<exists>uri. url_Parse lib (Endpoint @ ''/'' @ path) = Inr uri \<and>
                     URL r = url_String lib uri))"
proof -
  have res: "resolve path = Endpoint @ ''/'' @ path"
    using scheme_variant_no_prefix [OF assms] by (simp add: resolve_def)
  have "Request lib c v method path data = Return (Some (Library e)) v (DebugLog c)"
    if "url_Parse lib (Endpoint @ ''/'' @ path) = Inl e" for e
    using that res by (simp add: Request_def build_request_def)
  moreover have "\<exists>uri. url_Parse lib (Endpoint @ ''/'' @ path) = Inr uri \<and>
                     URL r = url_String lib uri"
    if "build_request lib c method path data = Inr r" for r
    using build_request_URL [OF that] res by simp
  moreover have "resolve p = p \<or> resolve p = Endpoint @ ''/'' @ p"
    by (simp add: resolve_def)
  ultimately show ?thesis
    using res resolve_exact [of p] by blast
qed

text \<open>The paths \<open>HTTP://host/x\<close>, \<open>http://host/x\<close>, \<open>https://host/x\<close> and \<open>balance\<close>.\<close>

theorem C10_case_sensitive_scheme_witness:
  "scheme_variant ''HTTP://host/x'' \<and>
   resolve ''HTTP://host/x'' = ''https://rest.messagebird.com/HTTP://host/x'' \<and>
   resolve ''http://host/x'' = ''http://host/x'' \<and>
   resolve ''https://host/x'' = ''https://host/x'' \<and>
   resolve ''balance'' = ''https://rest.messagebird.com/balance'' \<and>
   map_sum id URL (build_request go (test_client 200 []) ''GET'' ''HTTP://host/x'' None) =
     Inr ''https://rest.messagebird.com/HTTP://host/x''"
proof -
  have sv: "scheme_variant ''HTTP://host/x''"
    by (simp add: scheme_variant_def ascii_lower_def)
  note at_http = C10_case_sensitive_scheme [OF sv, of "''http://host/x''" go "test_client 200 []" no_balance
      "''GET''" None]
  note at_https = C10_case_sensitive_scheme [OF sv, of "''https://host/x''" go "test_client 200 []" no_balance
      "''GET''" None]
  note at_balance = C10_case_sensitive_scheme [OF sv, of "''balance''" go "test_client 200 []" no_balance
      "''GET''" None]
  have "resolve ''http://host/x'' = ''http://host/x''"
    using at_http by simp
  moreover have "resolve ''https://host/x'' = ''https://host/x''"
    using at_https by simp
  moreover have "resolve ''balance'' = ''https://rest.messagebird.com/balance''"
    using at_balance by (auto simp: Endpoint_def)
  moreover have "resolve ''HTTP://host/x'' = ''https://rest.messagebird.com/HTTP://host/x''"
    using at_http by (simp add: Endpoint_def)
  ultimately show ?thesis
    using sv by (simp add: go_URL_variant)
qed

end
